theory Spec2Isabelle
  imports Complex_Main
begin

section \<open>NumPy scalars\<close>

text \<open>
  \<^verbatim>\<open>elliptic_cylinder.py\<close> computes with NumPy double-precision scalars. They are
  embedded as exact real numbers extended by the three IEEE special values: a finite
  value is \<open>Fin x\<close> and its arithmetic is exact (rounding, overflow and underflow are
  not modelled), while division by zero, the square root of a negative number and
  arithmetic on the special values follow IEEE 754 as NumPy implements it: they produce
  \<open>PInf\<close>, \<open>NInf\<close> or \<open>NaN\<close> (with a RuntimeWarning) and never raise. Zero carries no
  sign, so \<open>x / 0\<close> takes the sign of \<open>x\<close>.
\<close>

datatype npfloat = Fin real | PInf | NInf | NaN

instantiation npfloat :: "{zero, one, plus, minus, uminus, times, inverse, power}"
begin

definition zero_npfloat :: npfloat where
  "zero_npfloat = Fin 0"

definition one_npfloat :: npfloat where
  "one_npfloat = Fin 1"

fun uminus_npfloat :: "npfloat \<Rightarrow> npfloat" where
  "uminus_npfloat (Fin x) = Fin (- x)"
| "uminus_npfloat PInf = NInf"
| "uminus_npfloat NInf = PInf"
| "uminus_npfloat NaN = NaN"

fun plus_npfloat :: "npfloat \<Rightarrow> npfloat \<Rightarrow> npfloat" where
  "plus_npfloat (Fin x) (Fin y) = Fin (x + y)"
| "plus_npfloat NaN _ = NaN"
| "plus_npfloat _ NaN = NaN"
| "plus_npfloat PInf NInf = NaN"
| "plus_npfloat NInf PInf = NaN"
| "plus_npfloat PInf _ = PInf"
| "plus_npfloat _ PInf = PInf"
| "plus_npfloat NInf _ = NInf"
| "plus_npfloat _ NInf = NInf"

definition minus_npfloat :: "npfloat \<Rightarrow> npfloat \<Rightarrow> npfloat" where
  "minus_npfloat a b = a + (- b)"

fun times_npfloat :: "npfloat \<Rightarrow> npfloat \<Rightarrow> npfloat" where
  "times_npfloat (Fin x) (Fin y) = Fin (x * y)"
| "times_npfloat NaN _ = NaN"
| "times_npfloat _ NaN = NaN"
| "times_npfloat PInf (Fin y) = (if y = 0 then NaN else if 0 < y then PInf else NInf)"
| "times_npfloat NInf (Fin y) = (if y = 0 then NaN else if 0 < y then NInf else PInf)"
| "times_npfloat (Fin x) PInf = (if x = 0 then NaN else if 0 < x then PInf else NInf)"
| "times_npfloat (Fin x) NInf = (if x = 0 then NaN else if 0 < x then NInf else PInf)"
| "times_npfloat PInf PInf = PInf"
| "times_npfloat PInf NInf = NInf"
| "times_npfloat NInf PInf = NInf"
| "times_npfloat NInf NInf = PInf"

fun divide_npfloat :: "npfloat \<Rightarrow> npfloat \<Rightarrow> npfloat" where
  "divide_npfloat (Fin x) (Fin y) =
     (if y \<noteq> 0 then Fin (x / y)
      else if x = 0 then NaN else if 0 < x then PInf else NInf)"
| "divide_npfloat NaN _ = NaN"
| "divide_npfloat _ NaN = NaN"
| "divide_npfloat (Fin x) PInf = Fin 0"
| "divide_npfloat (Fin x) NInf = Fin 0"
| "divide_npfloat PInf (Fin y) = (if 0 \<le> y then PInf else NInf)"
| "divide_npfloat NInf (Fin y) = (if 0 \<le> y then NInf else PInf)"
| "divide_npfloat PInf PInf = NaN"
| "divide_npfloat PInf NInf = NaN"
| "divide_npfloat NInf PInf = NaN"
| "divide_npfloat NInf NInf = NaN"

definition inverse_npfloat :: "npfloat \<Rightarrow> npfloat" where
  "inverse_npfloat a = divide (Fin 1) a"

instance ..

end

text \<open>\<^verbatim>\<open>x**0.5\<close> on a scalar: the C function \<^verbatim>\<open>pow\<close>.\<close>

fun pow_half :: "npfloat \<Rightarrow> npfloat" where
  "pow_half (Fin x) = (if x < 0 then NaN else Fin (sqrt x))"
| "pow_half PInf = PInf"
| "pow_half NInf = PInf"
| "pow_half NaN = NaN"

fun np_cos :: "npfloat \<Rightarrow> npfloat" where
  "np_cos (Fin x) = Fin (cos x)"
| "np_cos _ = NaN"

fun np_sin :: "npfloat \<Rightarrow> npfloat" where
  "np_sin (Fin x) = Fin (sin x)"
| "np_sin _ = NaN"

definition np_pi :: npfloat where
  "np_pi = Fin pi"

text \<open>\<^verbatim>\<open>np.deg2rad(x)\<close> is \<^verbatim>\<open>x * (pi / 180)\<close>.\<close>

definition np_deg2rad :: "npfloat \<Rightarrow> npfloat" where
  "np_deg2rad x = x * Fin (pi / 180)"

text \<open>
  \<^verbatim>\<open>a == b\<close> on scalars (a NaN equals nothing), the truth value of a scalar (false
  only for zero), and Python's \<^verbatim>\<open>a and b\<close>, which is \<^verbatim>\<open>a\<close> when \<^verbatim>\<open>a\<close> is false and
  \<^verbatim>\<open>b\<close> otherwise.
\<close>

definition np_eq :: "npfloat \<Rightarrow> npfloat \<Rightarrow> bool" where
  "np_eq a b = (a \<noteq> NaN \<and> a = b)"

definition truthy :: "npfloat \<Rightarrow> bool" where
  "truthy a = (a \<noteq> Fin 0)"

definition py_and :: "npfloat \<Rightarrow> npfloat \<Rightarrow> npfloat" where
  "py_and a b = (if truthy a then b else a)"

fun is_fin :: "npfloat \<Rightarrow> bool" where
  "is_fin (Fin x) = True"
| "is_fin _ = False"

fun fin_val :: "npfloat \<Rightarrow> real" where
  "fin_val (Fin x) = x"
| "fin_val _ = 0"

section \<open>NumPy arrays\<close>

text \<open>
  A one-dimensional array is a list and a two-dimensional array the list of its rows.
  The column vectors of shape \<open>(3, 1)\<close> that \<^verbatim>\<open>F_e\<close>, \<^verbatim>\<open>JN_e\<close>, \<^verbatim>\<open>JR_e\<close> and
  \<^verbatim>\<open>JRD_e\<close> pass around are the lists of their three entries. Every index in the
  source is a literal or a loop variable of \<^verbatim>\<open>range(3)\<close>, and the arrays it indexes
  are built with the shapes \<open>(2)\<close>, \<open>(3)\<close> and \<open>(3, 3)\<close> by \<^verbatim>\<open>elliptic\<close> itself; only
  the table \<^verbatim>\<open>k\<close> comes from the caller, and \<^verbatim>\<open>elliptic\<close> checks its shape below.
\<close>

type_synonym vec = "npfloat list"
type_synonym mat = "npfloat list list"

definition range3 :: "nat list" where
  "range3 = [0, 1, 2]"

definition np_zeros :: "nat \<Rightarrow> vec" where
  "np_zeros n = replicate n (Fin 0)"

definition np_zeros2 :: "nat \<Rightarrow> nat \<Rightarrow> mat" where
  "np_zeros2 m n = replicate m (replicate n (Fin 0))"

definition np_identity3 :: mat where
  "np_identity3 = [[Fin 1, Fin 0, Fin 0], [Fin 0, Fin 1, Fin 0], [Fin 0, Fin 0, Fin 1]]"

text \<open>\<^verbatim>\<open>m[i][j] = v\<close> and \<^verbatim>\<open>m[i,j] = v\<close>.\<close>

definition set2 :: "mat \<Rightarrow> nat \<Rightarrow> nat \<Rightarrow> npfloat \<Rightarrow> mat" where
  "set2 m i j v = m[i := (m ! i)[j := v]]"

text \<open>\<^verbatim>\<open>m[:,j]\<close>, \<^verbatim>\<open>m.T\<close> for a matrix of three columns, and \<^verbatim>\<open>np.vstack\<close>.\<close>

definition col :: "mat \<Rightarrow> nat \<Rightarrow> vec" where
  "col m j = map (\<lambda>row. row ! j) m"

definition np_T :: "mat \<Rightarrow> mat" where
  "np_T m = map (col m) range3"

definition np_sum :: "vec \<Rightarrow> npfloat" where
  "np_sum xs = foldl (+) (Fin 0) xs"

text \<open>\<^verbatim>\<open>m.dot(v)\<close> for a matrix and a column vector, and for two matrices.\<close>

definition dot :: "mat \<Rightarrow> vec \<Rightarrow> vec" where
  "dot m v = map (\<lambda>row. np_sum (map2 (*) row v)) m"

definition matmul :: "mat \<Rightarrow> mat \<Rightarrow> mat" where
  "matmul m n = map (\<lambda>row. map (\<lambda>j. np_sum (map2 (*) row (col n j))) range3) m"

definition mat_add :: "mat \<Rightarrow> mat \<Rightarrow> mat" where
  "mat_add m n = map2 (map2 (+)) m n"

section \<open>Errors\<close>

datatype error = NameError string | TypeError | IndexError | ValueError | LinAlgError

section \<open>The functions of elliptic\_cylinder.py\<close>

definition m_conv :: "vec \<Rightarrow> mat \<times> mat" where
  "m_conv angles =
     (let mcon = np_zeros2 3 3;
          mcon = set2 mcon 0 0 (Fin 0);
          mcon = set2 mcon 1 0 (np_cos (angles ! 0));
          mcon = set2 mcon 2 0 (- np_sin (angles ! 0));
          mcon = set2 mcon 0 1 (Fin 1);
          mcon = set2 mcon 1 1 (Fin 0);
          mcon = set2 mcon 2 1 (Fin 0);
          mcon = set2 mcon 0 2 (Fin 0);
          mcon = set2 mcon 1 2 (- np_sin (angles ! 0));
          mcon = set2 mcon 2 2 (- np_cos (angles ! 0));
          mconT = np_T mcon
      in (mcon, mconT))"

definition lmnn_v :: "npfloat \<Rightarrow> npfloat \<Rightarrow> npfloat \<times> npfloat \<times> npfloat" where
  "lmnn_v dec inc =
     (let ln' = np_cos dec * np_cos inc;
          mn = np_sin dec * np_cos inc;
          nn = np_sin inc
      in (ln', mn, nn))"

definition F_e :: "npfloat \<Rightarrow> npfloat \<Rightarrow> npfloat \<Rightarrow> npfloat \<Rightarrow> mat \<Rightarrow> vec" where
  "F_e intT lt mt nt mcon =
     map (\<lambda>x. intT * x)
       [lt * mcon ! 0 ! 0 + mt * mcon ! 0 ! 1 + nt * mcon ! 0 ! 2,
        lt * mcon ! 1 ! 0 + mt * mcon ! 1 ! 1 + nt * mcon ! 1 ! 2,
        lt * mcon ! 2 ! 0 + mt * mcon ! 2 ! 1 + nt * mcon ! 2 ! 2]"

definition JN_e :: "npfloat \<Rightarrow> npfloat \<Rightarrow> npfloat \<Rightarrow> npfloat \<Rightarrow> mat \<Rightarrow> vec" where
  "JN_e intensity ln' mn nn mcon =
     map (\<lambda>x. intensity * x)
       [ln' * mcon ! 0 ! 0 + mn * mcon ! 0 ! 1 + nn * mcon ! 0 ! 2,
        ln' * mcon ! 1 ! 0 + mn * mcon ! 1 ! 1 + nn * mcon ! 1 ! 2,
        ln' * mcon ! 2 ! 0 + mn * mcon ! 2 ! 1 + nn * mcon ! 2 ! 2]"

definition N_desmag :: "vec \<Rightarrow> npfloat \<times> npfloat" where
  "N_desmag axis =
     (let N2 = (Fin 4 * np_pi * axis ! 1) / (axis ! 0 + axis ! 1);
          N3 = (Fin 4 * np_pi * axis ! 0) / (axis ! 0 + axis ! 1)
      in (N2, N3))"

definition r_e :: "npfloat \<Rightarrow> npfloat \<Rightarrow> npfloat" where
  "r_e x2 x3 = pow_half (x2 ^ 2 + x3 ^ 2)"

definition delta_e :: "vec \<Rightarrow> npfloat \<Rightarrow> npfloat \<Rightarrow> npfloat \<Rightarrow> npfloat" where
  "delta_e axis r x2 x3 =
     pow_half (r ^ 4 + (axis ! 0 ^ 2 - axis ! 1 ^ 2) ^ 2
               - Fin 2 * (axis ! 0 ^ 2 - axis ! 1 ^ 2) * (x2 ^ 2 - x3 ^ 2))"

definition lamb_e :: "vec \<Rightarrow> npfloat \<Rightarrow> npfloat \<Rightarrow> npfloat" where
  "lamb_e axis r delta = (r ^ 2 - axis ! 0 ^ 2 - axis ! 1 ^ 2 + delta) / Fin 2"

text \<open>
  The module's global names: its imports and its functions. A name that a function
  body reads and does not bind itself is looked up here when the function runs.
\<close>

datatype pyobj = Module | Function | Array vec

definition module_globals :: "string \<rightharpoonup> pyobj" where
  "module_globals =
     [''np'' \<mapsto> Module, ''linalg'' \<mapsto> Module, ''mesher'' \<mapsto> Module,
      ''gridder'' \<mapsto> Module, ''utils'' \<mapsto> Module, ''scipy'' \<mapsto> Module,
      ''elliptic'' \<mapsto> Function, ''m_conv'' \<mapsto> Function, ''lmnn_v'' \<mapsto> Function,
      ''F_e'' \<mapsto> Function, ''JN_e'' \<mapsto> Function, ''N_desmag'' \<mapsto> Function,
      ''k_matrix'' \<mapsto> Function, ''k_matrix2'' \<mapsto> Function, ''JR_e'' \<mapsto> Function,
      ''JRD_e'' \<mapsto> Function, ''x_e'' \<mapsto> Function, ''r_e'' \<mapsto> Function,
      ''delta_e'' \<mapsto> Function, ''lamb_e'' \<mapsto> Function, ''dlambx_e'' \<mapsto> Function,
      ''f1_e'' \<mapsto> Function, ''B2_e'' \<mapsto> Function, ''B3_e'' \<mapsto> Function,
      ''Bx_c'' \<mapsto> Function, ''Bz_c'' \<mapsto> Function]"

text \<open>
  Reading a global name and subscripting it: an unbound name raises NameError, a
  module or a function raises TypeError on the subscript.
\<close>

definition global_array :: "(string \<rightharpoonup> pyobj) \<Rightarrow> string \<Rightarrow> error + vec" where
  "global_array g name =
     (case g name of
        None \<Rightarrow> Inl (NameError name)
      | Some (Array v) \<Rightarrow> Inr v
      | Some _ \<Rightarrow> Inl TypeError)"

definition k_matrix :: "vec \<Rightarrow> mat \<Rightarrow> mat" where
  "k_matrix k_int mcon =
     fold (\<lambda>i. fold (\<lambda>j. fold (\<lambda>r km.
         set2 km i j (km ! i ! j +
           k_int ! r
           * (mcon ! r ! 0 * mcon ! i ! 0 + mcon ! r ! 1 * mcon ! i ! 1 + mcon ! r ! 2 * mcon ! i ! 2)
           * (mcon ! r ! 0 * mcon ! j ! 0 + mcon ! r ! 1 * mcon ! j ! 1 + mcon ! r ! 2 * mcon ! j ! 2)))
       range3) range3) range3 (np_zeros2 3 3)"

text \<open>
  \<^verbatim>\<open>k_matrix2\<close> has the parameters \<^verbatim>\<open>k_int\<close> and \<^verbatim>\<open>mcon\<close> only; its body reads
  \<^verbatim>\<open>k_dec\<close> and \<^verbatim>\<open>k_inc\<close>, which are local variables of \<^verbatim>\<open>elliptic\<close> and so out
  of its scope: Python looks them up among the globals \<open>g\<close> of the module, \<^verbatim>\<open>k_dec\<close>
  first, in the first pass of the first loop.
\<close>

definition k_matrix2 :: "(string \<rightharpoonup> pyobj) \<Rightarrow> vec \<Rightarrow> mat \<Rightarrow> error + mat" where
  "k_matrix2 g k_int mcon =
     (case global_array g ''k_dec'' of
        Inl e \<Rightarrow> Inl e
      | Inr k_dec \<Rightarrow>
     (case global_array g ''k_inc'' of
        Inl e \<Rightarrow> Inl e
      | Inr k_inc \<Rightarrow>
     (if length k_dec < 3 \<or> length k_inc < 3 then Inl IndexError else
      let (Lr, Mr, Nr) =
            fold (\<lambda>i (Lr, Mr, Nr).
                   (Lr[i := np_cos (k_dec ! i) * np_cos (k_inc ! i)],
                    Mr[i := np_sin (k_dec ! i) * np_cos (k_inc ! i)],
                    Nr[i := np_sin (k_inc ! i)]))
              range3 (np_zeros 3, np_zeros 3, np_zeros 3)
      in Inr (fold (\<lambda>i. fold (\<lambda>j. fold (\<lambda>r km.
           set2 km i j (km ! i ! j +
             k_int ! r
             * (Lr ! r * mcon ! i ! 0 + Mr ! r * mcon ! i ! 1 + Nr ! r * mcon ! i ! 2)
             * (Lr ! r * mcon ! j ! 0 + Mr ! r * mcon ! j ! 1 + Nr ! r * mcon ! j ! 2)))
         range3) range3) range3 (np_zeros2 3 3)))))"

definition JR_e :: "mat \<Rightarrow> vec \<Rightarrow> vec \<Rightarrow> vec" where
  "JR_e km JN F = map2 (+) (dot km F) JN"

text \<open>
  \<^verbatim>\<open>scipy.linalg.inv\<close> on a matrix of shape \<open>(3, 3)\<close>, from its documentation: it
  raises ValueError when an entry is not finite (\<^verbatim>\<open>check_finite\<close>) or the matrix is
  not square, and LinAlgError when the matrix is singular; otherwise it returns the
  inverse, here the adjugate divided by the determinant.
\<close>

definition det3 :: "real list list \<Rightarrow> real" where
  "det3 A =
     A ! 0 ! 0 * (A ! 1 ! 1 * A ! 2 ! 2 - A ! 1 ! 2 * A ! 2 ! 1)
     - A ! 0 ! 1 * (A ! 1 ! 0 * A ! 2 ! 2 - A ! 1 ! 2 * A ! 2 ! 0)
     + A ! 0 ! 2 * (A ! 1 ! 0 * A ! 2 ! 1 - A ! 1 ! 1 * A ! 2 ! 0)"

definition adj3 :: "real list list \<Rightarrow> real list list" where
  "adj3 A =
     [[A ! 1 ! 1 * A ! 2 ! 2 - A ! 1 ! 2 * A ! 2 ! 1,
       A ! 0 ! 2 * A ! 2 ! 1 - A ! 0 ! 1 * A ! 2 ! 2,
       A ! 0 ! 1 * A ! 1 ! 2 - A ! 0 ! 2 * A ! 1 ! 1],
      [A ! 1 ! 2 * A ! 2 ! 0 - A ! 1 ! 0 * A ! 2 ! 2,
       A ! 0 ! 0 * A ! 2 ! 2 - A ! 0 ! 2 * A ! 2 ! 0,
       A ! 0 ! 2 * A ! 1 ! 0 - A ! 0 ! 0 * A ! 1 ! 2],
      [A ! 1 ! 0 * A ! 2 ! 1 - A ! 1 ! 1 * A ! 2 ! 0,
       A ! 0 ! 1 * A ! 2 ! 0 - A ! 0 ! 0 * A ! 2 ! 1,
       A ! 0 ! 0 * A ! 1 ! 1 - A ! 0 ! 1 * A ! 1 ! 0]]"

definition linalg_inv :: "mat \<Rightarrow> error + mat" where
  "linalg_inv A =
     (if \<not> (length A = 3 \<and> list_all (\<lambda>row. length row = 3) A) then Inl ValueError
      else if \<not> list_all (list_all is_fin) A then Inl ValueError
      else let R = map (map fin_val) A
           in if det3 R = 0 then Inl LinAlgError
              else Inr (map (map (\<lambda>x. Fin (x / det3 R))) (adj3 R)))"

definition JRD_e :: "mat \<Rightarrow> npfloat \<Rightarrow> npfloat \<Rightarrow> vec \<Rightarrow> error + vec" where
  "JRD_e km N2 N3 JR =
     (let I = np_identity3;
          kn0 = map (\<lambda>x. x * Fin 0) (col km 0);
          kn1 = map (\<lambda>x. x * N2) (col km 1);
          kn2 = map (\<lambda>x. x * N2) (col km 2);
          kn = np_T [kn0, kn1, kn2];
          A = mat_add I kn
      in case linalg_inv A of
           Inl e \<Rightarrow> Inl e
         | Inr Ainv \<Rightarrow> Inr (dot Ainv JR))"

definition x_e :: "npfloat \<Rightarrow> npfloat \<Rightarrow> npfloat \<Rightarrow> vec \<Rightarrow> mat \<Rightarrow> npfloat \<times> npfloat" where
  "x_e xp yp zp center mcon =
     (let x2 = (xp - center ! 0) * mcon ! 1 ! 0 + (yp - center ! 1) * mcon ! 1 ! 1
               - (zp + center ! 2) * mcon ! 1 ! 2;
          x3 = (xp - center ! 0) * mcon ! 2 ! 0 + (yp - center ! 1) * mcon ! 2 ! 1
               - (zp + center ! 2) * mcon ! 2 ! 2
      in (x2, x3))"

definition dlambx_e ::
  "vec \<Rightarrow> npfloat \<Rightarrow> npfloat \<Rightarrow> npfloat \<Rightarrow> npfloat \<Rightarrow> npfloat \<Rightarrow> npfloat \<times> npfloat" where
  "dlambx_e axis r x2 x3 lamb delta =
     (let dlambx2 = x2 * (Fin 1 + ((r ^ 2 - axis ! 0 ^ 2 + axis ! 1 ^ 2) / delta));
          dlambx3 = x3 * (Fin 1 + ((r ^ 2 + axis ! 0 ^ 2 - axis ! 1 ^ 2) / delta))
      in (dlambx2, dlambx3))"

definition f1_e :: "vec \<Rightarrow> npfloat \<Rightarrow> npfloat \<Rightarrow> npfloat \<Rightarrow> vec \<Rightarrow> npfloat" where
  "f1_e axis x2 x3 lamb JRD =
     ((Fin 2 * np_pi * axis ! 0 * axis ! 1)
        / pow_half ((axis ! 0 ^ 2 + lamb) * (axis ! 1 ^ 2 + lamb)))
     * (((JRD ! 1 * x2) / (axis ! 0 ^ 2 + lamb)) + ((JRD ! 2 * x3) / (axis ! 1 ^ 2 + lamb)))"

definition B2_e :: "npfloat \<Rightarrow> npfloat \<Rightarrow> vec \<Rightarrow> npfloat \<Rightarrow> vec \<Rightarrow> npfloat" where
  "B2_e dlambx2 lamb JRD f1 axis =
     (dlambx2 * f1)
     - ((Fin 4 * np_pi * axis ! 0 * axis ! 1) / (axis ! 0 ^ 2 - axis ! 1 ^ 2))
       * JRD ! 1
       * (Fin 1 - pow_half ((axis ! 1 ^ 2 + lamb) / (axis ! 0 ^ 2 + lamb)))"

definition B3_e :: "npfloat \<Rightarrow> npfloat \<Rightarrow> vec \<Rightarrow> npfloat \<Rightarrow> vec \<Rightarrow> npfloat" where
  "B3_e dlambx3 lamb JRD f1 axis =
     (dlambx3 * f1)
     - ((Fin 4 * np_pi * axis ! 0 * axis ! 1) / (axis ! 0 ^ 2 - axis ! 1 ^ 2))
       * JRD ! 2
       * (pow_half ((axis ! 0 ^ 2 + lamb) / (axis ! 1 ^ 2 + lamb)) - Fin 1)"

definition Bx_c :: "npfloat \<Rightarrow> npfloat \<Rightarrow> npfloat \<Rightarrow> npfloat \<Rightarrow> npfloat" where
  "Bx_c B2 B3 l2 l3 = B2 * l2 + B3 * l3"

definition Bz_c :: "npfloat \<Rightarrow> npfloat \<Rightarrow> npfloat \<Rightarrow> npfloat \<Rightarrow> npfloat" where
  "Bz_c B2 B3 n2 n3 = B2 * n2 + B3 * n3"

text \<open>
  The table \<^verbatim>\<open>k\<close> is read at the rows and columns 0, 1 and 2; a shorter table raises
  IndexError.
\<close>

definition k_shape_ok :: "mat \<Rightarrow> bool" where
  "k_shape_ok k = (3 \<le> length k \<and> list_all (\<lambda>row. 3 \<le> length row) (take 3 k))"

text \<open>
  Lines 48 to 55 of \<^verbatim>\<open>elliptic\<close>: the three columns of \<^verbatim>\<open>k\<close> and the choice of
  the tensor builder. The test is \<^verbatim>\<open>k_int[0] == (k_int[1] and k_int[2])\<close>.
\<close>

definition elliptic_km :: "mat \<Rightarrow> mat \<Rightarrow> error + mat" where
  "elliptic_km k mcon =
     (if \<not> k_shape_ok k then Inl IndexError
      else
        let k_int = [k ! 0 ! 0, k ! 1 ! 0, k ! 2 ! 0];
            k_inc = [k ! 0 ! 1, k ! 1 ! 1, k ! 2 ! 1];
            k_dec = [k ! 0 ! 2, k ! 1 ! 2, k ! 2 ! 2]
        in if np_eq (k_int ! 0) (py_and (k_int ! 1) (k_int ! 2))
           then Inr (k_matrix k_int mcon)
           else k_matrix2 module_globals k_int mcon)"

text \<open>
  \<^verbatim>\<open>elliptic\<close> for one observation point. \<^verbatim>\<open>utils.vec2ang\<close> belongs to the
  fatiando library; its value \<^verbatim>\<open>JRD_ang\<close> is never used, and the call is left out
  (it computes a norm, an arc tangent and an arc sine with NumPy and raises nothing).
\<close>

definition elliptic ::
  "npfloat \<Rightarrow> npfloat \<Rightarrow> npfloat \<Rightarrow> npfloat \<Rightarrow> npfloat \<Rightarrow> npfloat \<Rightarrow> npfloat \<Rightarrow> npfloat \<Rightarrow>
   npfloat \<Rightarrow> npfloat \<Rightarrow> npfloat \<Rightarrow> npfloat \<Rightarrow> npfloat \<Rightarrow> npfloat \<Rightarrow> npfloat \<Rightarrow> mat \<Rightarrow>
   error + npfloat \<times> npfloat \<times> npfloat" where
  "elliptic xp yp zp xc yc zc b c delta declirem inclirem intensity decT incT intT k =
     (let center = [xc, yc, zc];
          axis = [b, c];
          delta = np_deg2rad delta;
          angles = [delta];
          (mcon, mconT) = m_conv angles;
          declirem = np_deg2rad declirem;
          inclirem = np_deg2rad inclirem;
          (ln', mn, nn) = lmnn_v declirem inclirem;
          decT = np_deg2rad decT;
          incT = np_deg2rad incT;
          (lt, mt, nt) = lmnn_v decT incT
      in case elliptic_km k mcon of
           Inl e \<Rightarrow> Inl e
         | Inr km \<Rightarrow>
        (let F = F_e intT lt mt nt mcon;
             JN = JN_e intensity ln' mn nn mcon;
             (N2, N3) = N_desmag axis;
             JR = JR_e km JN F
         in case JRD_e km N2 N3 JR of
              Inl e \<Rightarrow> Inl e
            | Inr JRD \<Rightarrow>
           (let JRD_carte = dot mconT JRD;
                (x2, x3) = x_e xp yp zp center mcon;
                r = r_e x2 x3;
                delta = delta_e axis r x2 x3;
                lamb = lamb_e axis r delta;
                (dlambx2, dlambx3) = dlambx_e axis r x2 x3 lamb delta;
                f1 = f1_e axis x2 x3 lamb JRD;
                B2 = B2_e dlambx2 lamb JRD f1 axis;
                B3 = B3_e dlambx3 lamb JRD f1 axis;
                Bx = Bx_c B2 B3 (mcon ! 1 ! 0) (mcon ! 2 ! 0);
                Bz = Bz_c B2 B3 (mcon ! 1 ! 2) (mcon ! 2 ! 2);
                Tf = Bx * np_cos incT * np_cos decT + Bz * np_sin incT
            in Inr (Bx, Bz, Tf))))"

section \<open>Arithmetic of finite values\<close>

lemma minus_Fin [simp]: "Fin x - Fin y = Fin (x - y)"
  by (simp add: minus_npfloat_def)

lemma power_Fin [simp]: "Fin x ^ n = Fin (x ^ n)"
  by (induction n) (simp_all add: one_npfloat_def)

lemma zero_plus_np: "Fin 0 + x = x"
  by (cases x) simp_all

lemma sin_cos_sq: "sin d * sin d + cos d * cos d = (1::real)"
  using sin_cos_squared_add [of d] by (simp add: power2_eq_square)

section \<open>The rotation matrix\<close>

lemma m_conv_Fin:
  "m_conv [Fin d] =
     ([[Fin 0, Fin 1, Fin 0],
       [Fin (cos d), Fin 0, Fin (- sin d)],
       [Fin (- sin d), Fin 0, Fin (- cos d)]],
      [[Fin 0, Fin (cos d), Fin (- sin d)],
       [Fin 1, Fin 0, Fin 0],
       [Fin 0, Fin (- sin d), Fin (- cos d)]])"
  by (simp add: m_conv_def np_zeros2_def set2_def np_T_def col_def range3_def eval_nat_numeral)

text \<open>
  Claim C6. For every tilt angle \<open>d\<close> (a real number, in radians) the matrix
  \<open>mcon\<close> built by \<open>m_conv\<close> is orthogonal: the product of \<open>mcon\<close> and the second
  returned value \<open>mconT\<close> is the identity matrix, and \<open>mconT\<close> is the transpose of
  \<open>mcon\<close>.
\<close>

theorem m_conv_orthogonal:
  "matmul (fst (m_conv [Fin d])) (snd (m_conv [Fin d])) = np_identity3
   \<and> snd (m_conv [Fin d]) = np_T (fst (m_conv [Fin d]))"
  by (simp add: m_conv_Fin matmul_def np_sum_def col_def range3_def np_identity3_def np_T_def
      sin_cos_sq)

section \<open>The isotropic susceptibility tensor\<close>

text \<open>The three nested iterations of \<open>k_matrix\<close>, unrolled.\<close>

lemma k_matrix_unfold:
  "k_matrix k_int mcon =
     map (\<lambda>i. map (\<lambda>j.
       k_int ! 0
           * (mcon ! 0 ! 0 * mcon ! i ! 0 + mcon ! 0 ! 1 * mcon ! i ! 1 + mcon ! 0 ! 2 * mcon ! i ! 2)
           * (mcon ! 0 ! 0 * mcon ! j ! 0 + mcon ! 0 ! 1 * mcon ! j ! 1 + mcon ! 0 ! 2 * mcon ! j ! 2)
       + k_int ! 1
           * (mcon ! 1 ! 0 * mcon ! i ! 0 + mcon ! 1 ! 1 * mcon ! i ! 1 + mcon ! 1 ! 2 * mcon ! i ! 2)
           * (mcon ! 1 ! 0 * mcon ! j ! 0 + mcon ! 1 ! 1 * mcon ! j ! 1 + mcon ! 1 ! 2 * mcon ! j ! 2)
       + k_int ! 2
           * (mcon ! 2 ! 0 * mcon ! i ! 0 + mcon ! 2 ! 1 * mcon ! i ! 1 + mcon ! 2 ! 2 * mcon ! i ! 2)
           * (mcon ! 2 ! 0 * mcon ! j ! 0 + mcon ! 2 ! 1 * mcon ! j ! 1 + mcon ! 2 ! 2 * mcon ! j ! 2))
       [0, 1, 2]) [0, 1, 2]"
  by (simp add: k_matrix_def np_zeros2_def set2_def range3_def eval_nat_numeral zero_plus_np)

lemma k_matrix_m_conv_Fin:
  "k_matrix [Fin k1, Fin k2, Fin k3] (fst (m_conv [Fin d])) =
     [[Fin k1, Fin 0, Fin 0], [Fin 0, Fin k2, Fin 0], [Fin 0, Fin 0, Fin k3]]"
  by (simp add: k_matrix_unfold m_conv_Fin sin_cos_sq)

text \<open>
  Claim C10. For every tilt angle \<open>d\<close> and every triple of intensities \<open>k1\<close>, \<open>k2\<close>,
  \<open>k3\<close>, the tensor that \<open>k_matrix\<close> builds from the rotation matrix of \<open>m_conv\<close> is,
  in exact arithmetic, the diagonal matrix of \<open>k1\<close>, \<open>k2\<close>, \<open>k3\<close>, whatever the tilt
  angle.
\<close>

theorem k_matrix_m_conv_diagonal:
  "k_matrix [Fin k1, Fin k2, Fin k3] (fst (m_conv [Fin d])) =
     [[Fin k1, Fin 0, Fin 0], [Fin 0, Fin k2, Fin 0], [Fin 0, Fin 0, Fin k3]]"
  by (rule k_matrix_m_conv_Fin)

section \<open>The demagnetization factors\<close>



section \<open>The discriminant and the outer root\<close>

lemma radicand_nonneg:
  fixes x2 x3 c :: real
  shows "0 \<le> (x2\<^sup>2 + x3\<^sup>2)\<^sup>2 + c\<^sup>2 - 2 * c * (x2\<^sup>2 - x3\<^sup>2)"
proof -
  have "(x2\<^sup>2 + x3\<^sup>2)\<^sup>2 + c\<^sup>2 - 2 * c * (x2\<^sup>2 - x3\<^sup>2)
        = (x2\<^sup>2 - x3\<^sup>2 - c)\<^sup>2 + (2 * x2 * x3)\<^sup>2"
    by (simp add: power2_eq_square algebra_simps)
  then show ?thesis by simp
qed

lemma sqrt_pow4: "(sqrt (x2\<^sup>2 + x3\<^sup>2)) ^ 4 = (x2\<^sup>2 + x3\<^sup>2)\<^sup>2"
proof -
  have "(sqrt (x2\<^sup>2 + x3\<^sup>2)) ^ 4 = ((sqrt (x2\<^sup>2 + x3\<^sup>2))\<^sup>2)\<^sup>2"
    by (simp only: power_mult [symmetric]) simp
  also have "\<dots> = (x2\<^sup>2 + x3\<^sup>2)\<^sup>2"
    by (simp only: real_sqrt_pow2 [OF sum_power2_ge_zero])
  finally show ?thesis .
qed

text \<open>
  Claim C7. For every axis pair \<open>(a, b)\<close> and body coordinates \<open>(x2, x3)\<close>, with
  \<open>r\<close> the distance \<open>sqrt (x2^2 + x3^2)\<close> that \<open>r_e\<close> returns, \<open>delta_e\<close> returns
  \<open>sqrt (r^4 + (a^2 - b^2)^2 - 2 (a^2 - b^2) (x2^2 - x3^2))\<close>, and \<open>lamb_e\<close> returns
  \<open>(r^2 - a^2 - b^2 + delta) / 2\<close>.
\<close>

theorem delta_e_lamb_e_formulas:
  "r_e (Fin x2) (Fin x3) = Fin (sqrt (x2\<^sup>2 + x3\<^sup>2))
   \<and> delta_e [Fin a, Fin b] (r_e (Fin x2) (Fin x3)) (Fin x2) (Fin x3) =
       Fin (sqrt ((sqrt (x2\<^sup>2 + x3\<^sup>2)) ^ 4 + (a\<^sup>2 - b\<^sup>2)\<^sup>2
                  - 2 * (a\<^sup>2 - b\<^sup>2) * (x2\<^sup>2 - x3\<^sup>2)))
   \<and> lamb_e [Fin a, Fin b] (Fin r) (Fin dl) = Fin ((r\<^sup>2 - a\<^sup>2 - b\<^sup>2 + dl) / 2)"
proof -
  have r: "r_e (Fin x2) (Fin x3) = Fin (sqrt (x2\<^sup>2 + x3\<^sup>2))"
    by (simp add: r_e_def not_less)
  have "0 \<le> (sqrt (x2\<^sup>2 + x3\<^sup>2)) ^ 4 + (a\<^sup>2 - b\<^sup>2)\<^sup>2 - 2 * (a\<^sup>2 - b\<^sup>2) * (x2\<^sup>2 - x3\<^sup>2)"
    unfolding sqrt_pow4 by (rule radicand_nonneg)
  then have d: "delta_e [Fin a, Fin b] (Fin (sqrt (x2\<^sup>2 + x3\<^sup>2))) (Fin x2) (Fin x3) =
       Fin (sqrt ((sqrt (x2\<^sup>2 + x3\<^sup>2)) ^ 4 + (a\<^sup>2 - b\<^sup>2)\<^sup>2
                  - 2 * (a\<^sup>2 - b\<^sup>2) * (x2\<^sup>2 - x3\<^sup>2)))"
    by (simp add: delta_e_def)
  have l: "lamb_e [Fin a, Fin b] (Fin r) (Fin dl) = Fin ((r\<^sup>2 - a\<^sup>2 - b\<^sup>2 + dl) / 2)"
    by (simp add: lamb_e_def)
  from r d l show ?thesis by simp
qed

section \<open>The anisotropic susceptibility tensor\<close>

lemma module_globals_k_dec: "module_globals ''k_dec'' = None"
  by (simp add: module_globals_def)

lemma k_matrix2_module: "k_matrix2 module_globals k_int mcon = Inl (NameError ''k_dec'')"
  by (simp add: k_matrix2_def global_array_def module_globals_k_dec)

text \<open>
  Had the two arrays been in scope, with the three directions along the rows of
  \<open>mcon\<close>, \<open>k_matrix2\<close> would compute what \<open>k_matrix\<close> computes.
\<close>

lemma k_matrix2_aligned:
  assumes "g ''k_dec'' = Some (Array [d0, d1, d2])"
    and "g ''k_inc'' = Some (Array [i0, i1, i2])"
    and "mcon = [[np_cos d0 * np_cos i0, np_sin d0 * np_cos i0, np_sin i0],
                 [np_cos d1 * np_cos i1, np_sin d1 * np_cos i1, np_sin i1],
                 [np_cos d2 * np_cos i2, np_sin d2 * np_cos i2, np_sin i2]]"
  shows "k_matrix2 g k_int mcon = Inr (k_matrix k_int mcon)"
  using assms
  by (simp add: k_matrix2_def global_array_def k_matrix_def np_zeros_def np_zeros2_def set2_def
        range3_def eval_nat_numeral)

text \<open>
  Claim C2 says that \<open>k_matrix2\<close> returns, with the tensor of \<open>k_matrix\<close>, for every
  rotation matrix and every descriptor of three equal intensities whose directions lie
  along the body axes. In the module as it is written \<open>k_matrix2\<close> returns for no
  argument at all: it raises NameError at its first read of \<^verbatim>\<open>k_dec\<close>.
\<close>

theorem k_matrix2_raises_NameError:
  "k_matrix2 module_globals k_int mcon = Inl (NameError ''k_dec'')"
  by (rule k_matrix2_module)

section \<open>The choice of the tensor builder\<close>

text \<open>Equal intensities select \<open>k_matrix\<close>.\<close>

lemma elliptic_km_equal:
  assumes "k = [[Fin k0, d0, i0], [Fin k0, d1, i1], [Fin k0, d2, i2]]"
  shows "elliptic_km k mcon = Inr (k_matrix [Fin k0, Fin k0, Fin k0] mcon)"
  using assms by (simp add: elliptic_km_def k_shape_ok_def np_eq_def py_and_def truthy_def Let_def)

text \<open>
  The intensities 1, 2, 3 select \<open>k_matrix2\<close>, and \<open>elliptic\<close> ends with its NameError.
\<close>

lemma elliptic_km_unequal:
  "elliptic_km [[Fin 1, d0, i0], [Fin 2, d1, i1], [Fin 3, d2, i2]] mcon
   = Inl (NameError ''k_dec'')"
  by (simp add: elliptic_km_def k_shape_ok_def np_eq_def py_and_def truthy_def k_matrix2_module)

lemma elliptic_unequal_raises:
  "elliptic xp yp zp xc yc zc b c delta declirem inclirem intensity decT incT intT
     [[Fin 1, d0, i0], [Fin 2, d1, i1], [Fin 3, d2, i2]]
   = Inl (NameError ''k_dec'')"
  by (simp add: elliptic_def elliptic_km_unequal Let_def split_beta)

text \<open>
  Claim C1 says that \<open>elliptic\<close> selects \<open>k_matrix\<close> exactly when the three
  intensities are pairwise equal, and \<open>k_matrix2\<close> whenever two of them differ. The
  test of the source compares the first intensity with \<^verbatim>\<open>(k_int[1] and k_int[2])\<close>,
  which is the third intensity whenever the second is not zero: for the intensities
  1, 2, 1 the first and the second differ and \<open>elliptic\<close> still selects \<open>k_matrix\<close>
  (its result is the tensor of \<open>k_matrix\<close>, where \<open>k_matrix2\<close> raises).
\<close>

theorem elliptic_km_isotropic_at_1_2_1:
  "elliptic_km [[Fin 1, Fin 0, Fin 0], [Fin 2, Fin 0, Fin 0], [Fin 1, Fin 0, Fin 0]]
       (fst (m_conv [Fin 0]))
     = Inr (k_matrix [Fin 1, Fin 2, Fin 1] (fst (m_conv [Fin 0])))
   \<and> elliptic_km [[Fin 1, Fin 0, Fin 0], [Fin 2, Fin 0, Fin 0], [Fin 1, Fin 0, Fin 0]]
       (fst (m_conv [Fin 0]))
     \<noteq> k_matrix2 module_globals [Fin 1, Fin 2, Fin 1] (fst (m_conv [Fin 0]))
   \<and> \<not> np_eq (Fin 1) (Fin 2)"
  by (simp add: elliptic_km_def k_shape_ok_def np_eq_def py_and_def truthy_def k_matrix2_module)

section \<open>The self-demagnetization correction\<close>

lemma JRD_e_matrix:
  "JRD_e [[Fin k00, Fin k01, Fin k02], [Fin k10, Fin k11, Fin k12], [Fin k20, Fin k21, Fin k22]]
         (Fin n2) N3 JR =
     (case linalg_inv (mat_add np_identity3
             [[Fin 0, Fin (k01 * n2), Fin (k02 * n2)],
              [Fin 0, Fin (k11 * n2), Fin (k12 * n2)],
              [Fin 0, Fin (k21 * n2), Fin (k22 * n2)]]) of
        Inl e \<Rightarrow> Inl e
      | Inr Ainv \<Rightarrow> Inr (dot Ainv JR))"
  by (simp add: JRD_e_def col_def np_T_def range3_def)

lemma linalg_inv_A:
  "linalg_inv (mat_add np_identity3
             [[Fin 0, Fin p, Fin q],
              [Fin 0, Fin s, Fin t],
              [Fin 0, Fin u, Fin v]]) =
    (if (1 + s) * (1 + v) - t * u = 0 then Inl LinAlgError
     else Inr [[Fin 1, Fin ((q * u - p * (1 + v)) / ((1 + s) * (1 + v) - t * u)),
                       Fin ((p * t - q * (1 + s)) / ((1 + s) * (1 + v) - t * u))],
               [Fin 0, Fin ((1 + v) / ((1 + s) * (1 + v) - t * u)),
                       Fin (- t / ((1 + s) * (1 + v) - t * u))],
               [Fin 0, Fin (- u / ((1 + s) * (1 + v) - t * u)),
                       Fin ((1 + s) / ((1 + s) * (1 + v) - t * u))]])"
  by (simp add: linalg_inv_def mat_add_def np_identity3_def det3_def adj3_def Let_def)


lemma dot_A_solution:
  fixes p q s t u v j0 j1 j2 :: real
  assumes D: "(1 + s) * (1 + v) - t * u \<noteq> 0"
  shows "dot (mat_add np_identity3
             [[Fin 0, Fin p, Fin q],
              [Fin 0, Fin s, Fin t],
              [Fin 0, Fin u, Fin v]])
          (dot [[Fin 1, Fin ((q * u - p * (1 + v)) / ((1 + s) * (1 + v) - t * u)),
                       Fin ((p * t - q * (1 + s)) / ((1 + s) * (1 + v) - t * u))],
               [Fin 0, Fin ((1 + v) / ((1 + s) * (1 + v) - t * u)),
                       Fin (- t / ((1 + s) * (1 + v) - t * u))],
               [Fin 0, Fin (- u / ((1 + s) * (1 + v) - t * u)),
                       Fin ((1 + s) / ((1 + s) * (1 + v) - t * u))]]
             [Fin j0, Fin j1, Fin j2])
        = [Fin j0, Fin j1, Fin j2]"
proof -
  define D where "D = (1 + s) * (1 + v) - t * u"
  have D0: "D \<noteq> 0" using D by (simp add: D_def)
  have e0: "j0 + (q * u - p * (1 + v)) / D * j1 + (p * t - q * (1 + s)) / D * j2
            + p * ((1 + v) / D * j1 + - t / D * j2) + q * (- u / D * j1 + (1 + s) / D * j2) = j0"
    using D0 by (simp add: field_simps)
  have e1: "(1 + s) * ((1 + v) / D * j1 + - t / D * j2) + t * (- u / D * j1 + (1 + s) / D * j2) = j1"
  proof -
    have "(1 + s) * ((1 + v) / D * j1 + - t / D * j2) + t * (- u / D * j1 + (1 + s) / D * j2)
          = (((1 + s) * (1 + v) - t * u) * j1) / D"
      using D0 by (simp add: field_simps)
    then show ?thesis using D0 by (simp add: D_def)
  qed
  have e2: "u * ((1 + v) / D * j1 + - t / D * j2) + (1 + v) * (- u / D * j1 + (1 + s) / D * j2) = j2"
  proof -
    have "u * ((1 + v) / D * j1 + - t / D * j2) + (1 + v) * (- u / D * j1 + (1 + s) / D * j2)
          = (((1 + s) * (1 + v) - t * u) * j2) / D"
      using D0 by (simp add: field_simps)
    then show ?thesis using D0 by (simp add: D_def)
  qed
  show ?thesis
    using e0 e1 e2
    by (simp add: dot_def mat_add_def np_identity3_def np_sum_def D_def [symmetric])
qed


lemma inv_A_solves:
  fixes p q s t u v j0 j1 j2 :: real
  assumes D: "(1 + s) * (1 + v) - t * u \<noteq> 0"
  shows "\<exists>Ainv. linalg_inv (mat_add np_identity3
                    [[Fin 0, Fin p, Fin q], [Fin 0, Fin s, Fin t], [Fin 0, Fin u, Fin v]])
                  = Inr Ainv
           \<and> dot (mat_add np_identity3
                    [[Fin 0, Fin p, Fin q], [Fin 0, Fin s, Fin t], [Fin 0, Fin u, Fin v]])
                 (dot Ainv [Fin j0, Fin j1, Fin j2]) = [Fin j0, Fin j1, Fin j2]"
  unfolding linalg_inv_A if_not_P [OF D] using dot_A_solution [OF D] by blast

text \<open>
  Claim C4. For every (finite) susceptibility tensor \<open>km\<close>, factor \<open>N2\<close> and
  magnetization \<open>JR\<close>, \<open>JRD_e\<close> inverts the matrix \<open>A = I + kn\<close>, where the first
  column of \<open>kn\<close> is zero and its second and third columns are the second and third
  columns of \<open>km\<close>, both scaled by \<open>N2\<close>, and applies the inverse to \<open>JR\<close>: when
  \<open>A\<close> is invertible (its determinant \<open>D\<close> is not zero) the vector \<open>JRD\<close> it returns
  satisfies \<open>A JRD = JR\<close>, and when \<open>A\<close> is singular it raises LinAlgError. \<open>N3\<close> is
  never used.
\<close>

theorem JRD_e_correction:
  fixes k00 k01 k02 k10 k11 k12 k20 k21 k22 n2 j0 j1 j2 :: real
  defines "km \<equiv> [[Fin k00, Fin k01, Fin k02],
                   [Fin k10, Fin k11, Fin k12],
                   [Fin k20, Fin k21, Fin k22]]"
    and "kn \<equiv> [[Fin 0, Fin (k01 * n2), Fin (k02 * n2)],
                 [Fin 0, Fin (k11 * n2), Fin (k12 * n2)],
                 [Fin 0, Fin (k21 * n2), Fin (k22 * n2)]]"
    and "JR \<equiv> [Fin j0, Fin j1, Fin j2]"
    and "D \<equiv> (1 + k11 * n2) * (1 + k22 * n2) - (k12 * n2) * (k21 * n2)"
  shows "JRD_e km (Fin n2) N3 JR =
           (case linalg_inv (mat_add np_identity3 kn) of
              Inl e \<Rightarrow> Inl e
            | Inr Ainv \<Rightarrow> Inr (dot Ainv JR))
     \<and> (D \<noteq> 0 \<longrightarrow>
          (\<exists>JRD. JRD_e km (Fin n2) N3 JR = Inr JRD \<and> dot (mat_add np_identity3 kn) JRD = JR))
     \<and> (D = 0 \<longrightarrow> JRD_e km (Fin n2) N3 JR = Inl LinAlgError)
     \<and> JRD_e km (Fin n2) N3 JR = JRD_e km (Fin n2) N3' JR"
proof (intro conjI impI)
  show "JRD_e km (Fin n2) N3 JR =
           (case linalg_inv (mat_add np_identity3 kn) of
              Inl e \<Rightarrow> Inl e
            | Inr Ainv \<Rightarrow> Inr (dot Ainv JR))"
    unfolding km_def kn_def by (rule JRD_e_matrix)
next
  assume "D \<noteq> 0"
  then have "(1 + k11 * n2) * (1 + k22 * n2) - (k12 * n2) * (k21 * n2) \<noteq> 0"
    unfolding D_def .
  from inv_A_solves [OF this, of "k01 * n2" "k02 * n2" j0 j1 j2]
  obtain Ainv where inv: "linalg_inv (mat_add np_identity3 kn) = Inr Ainv"
    and sol: "dot (mat_add np_identity3 kn) (dot Ainv JR) = JR"
    unfolding kn_def JR_def by blast
  have "JRD_e km (Fin n2) N3 JR = Inr (dot Ainv JR)"
    using inv unfolding km_def kn_def by (simp add: JRD_e_matrix)
  with sol show
    "\<exists>JRD. JRD_e km (Fin n2) N3 JR = Inr JRD \<and> dot (mat_add np_identity3 kn) JRD = JR"
    by blast
next
  assume "D = 0"
  then show "JRD_e km (Fin n2) N3 JR = Inl LinAlgError"
    unfolding km_def kn_def JR_def D_def
    by (simp add: JRD_e_matrix linalg_inv_A)
next
  show "JRD_e km (Fin n2) N3 JR = JRD_e km (Fin n2) N3' JR"
    by (simp add: JRD_e_def)
qed

theorem JRD_e_correction_witness:
  "(1 + 5 * 1) * (1 + 10 * 1) - (6 * 1) * (8 * 1) \<noteq> (0::real)
   \<and> (1 + 1 * (- 1)) * (1 + 1 * (- 1)) - (0 * (- 1)) * (0 * (- 1)) = (0::real)
   \<and> JRD_e [[Fin 1, Fin 2, Fin 3], [Fin 4, Fin 5, Fin 6], [Fin 7, Fin 8, Fin 10]]
       (Fin 1) (Fin 0) [Fin 1, Fin 2, Fin 3] = Inr [Fin (2 / 9), Fin (2 / 9), Fin (1 / 9)]
   \<and> dot (mat_add np_identity3 [[Fin 0, Fin 2, Fin 3], [Fin 0, Fin 5, Fin 6], [Fin 0, Fin 8, Fin 10]])
        [Fin (2 / 9), Fin (2 / 9), Fin (1 / 9)] = [Fin 1, Fin 2, Fin 3]
   \<and> JRD_e [[Fin 1, Fin 0, Fin 0], [Fin 0, Fin 1, Fin 0], [Fin 0, Fin 0, Fin 1]]
       (Fin (- 1)) (Fin 0) [Fin 1, Fin 2, Fin 3] = Inl LinAlgError"
proof -
  note t1 = JRD_e_correction [where ?k00.0 = 1 and ?k01.0 = 2 and ?k02.0 = 3 and ?k10.0 = 4
        and ?k11.0 = 5 and ?k12.0 = 6 and ?k20.0 = 7 and ?k21.0 = 8 and ?k22.0 = 10
        and ?n2.0 = 1 and ?N3.0 = "Fin 0" and ?j0.0 = 1 and ?j1.0 = 2 and ?j2.0 = 3]
  note t2 = JRD_e_correction [where ?k00.0 = 1 and ?k01.0 = 0 and ?k02.0 = 0 and ?k10.0 = 0
      and ?k11.0 = 1 and ?k12.0 = 0 and ?k20.0 = 0 and ?k21.0 = 0 and ?k22.0 = 1
      and ?n2.0 = "- 1" and ?N3.0 = "Fin 0" and ?j0.0 = 1 and ?j1.0 = 2 and ?j2.0 = 3]
  have a: "JRD_e [[Fin 1, Fin 2, Fin 3], [Fin 4, Fin 5, Fin 6], [Fin 7, Fin 8, Fin 10]]
       (Fin 1) (Fin 0) [Fin 1, Fin 2, Fin 3] = Inr [Fin (2 / 9), Fin (2 / 9), Fin (1 / 9)]"
    by (simp add: JRD_e_matrix linalg_inv_A dot_def np_sum_def)
  have "\<exists>JRD. JRD_e [[Fin 1, Fin 2, Fin 3], [Fin 4, Fin 5, Fin 6], [Fin 7, Fin 8, Fin 10]]
           (Fin 1) (Fin 0) [Fin 1, Fin 2, Fin 3] = Inr JRD
         \<and> dot (mat_add np_identity3
                 [[Fin 0, Fin 2, Fin 3], [Fin 0, Fin 5, Fin 6], [Fin 0, Fin 8, Fin 10]]) JRD
           = [Fin 1, Fin 2, Fin 3]"
    using t1 [THEN conjunct2, THEN conjunct1] by simp
  then have b: "dot (mat_add np_identity3
                 [[Fin 0, Fin 2, Fin 3], [Fin 0, Fin 5, Fin 6], [Fin 0, Fin 8, Fin 10]])
        [Fin (2 / 9), Fin (2 / 9), Fin (1 / 9)] = [Fin 1, Fin 2, Fin 3]"
    unfolding a by (simp only: sum.inject) blast
  have c: "JRD_e [[Fin 1, Fin 0, Fin 0], [Fin 0, Fin 1, Fin 0], [Fin 0, Fin 0, Fin 1]]
       (Fin (- 1)) (Fin 0) [Fin 1, Fin 2, Fin 3] = Inl LinAlgError"
    using t2 [THEN conjunct2, THEN conjunct2, THEN conjunct1] by simp
  from a b c show ?thesis by simp
qed

section \<open>Arithmetic with the special values\<close>

lemma np_times_NaN [simp]: "x * NaN = NaN"
  by (cases x) simp_all

lemma np_div_NaN [simp]: "x / NaN = NaN"
  by (cases x) simp_all

lemma np_plus_NaN [simp]: "x + NaN = NaN"
  by (cases x) simp_all

lemma np_minus_NaN [simp]: "x - NaN = NaN"
  by (simp add: minus_npfloat_def)

lemma np_NaN_minus [simp]: "NaN - x = NaN"
  by (simp add: minus_npfloat_def)

lemma self_minus: "(b::npfloat) - b = Fin 0 \<or> b - b = NaN"
  by (cases b) (simp_all add: minus_npfloat_def)

lemma self_div: "(q::npfloat) / q = Fin 1 \<or> q / q = NaN"
  by (cases q) simp_all

lemma div_zero_not_fin: "\<not> is_fin (x / Fin 0)"
  by (cases x) simp_all

lemma not_fin_times: "\<not> is_fin y \<Longrightarrow> \<not> is_fin (y * j)"
  by (cases y; cases j) simp_all

lemma not_fin_times_zero: "\<not> is_fin y \<Longrightarrow> y * Fin 0 = NaN"
  by (cases y) simp_all



section \<open>The steps of the pipeline on finite arguments\<close>

lemma np_deg2rad_Fin: "np_deg2rad (Fin x) = Fin (x * (pi / 180))"
  by (simp add: np_deg2rad_def)

lemma lmnn_v_Fin:
  "lmnn_v (Fin d) (Fin i) = (Fin (cos d * cos i), Fin (sin d * cos i), Fin (sin i))"
  by (simp add: lmnn_v_def)

lemma F_e_Fin:
  "F_e (Fin t) (Fin l) (Fin m) (Fin n)
       [[Fin m00, Fin m01, Fin m02], [Fin m10, Fin m11, Fin m12], [Fin m20, Fin m21, Fin m22]]
   = [Fin (t * (l * m00 + m * m01 + n * m02)),
      Fin (t * (l * m10 + m * m11 + n * m12)),
      Fin (t * (l * m20 + m * m21 + n * m22))]"
  by (simp add: F_e_def)

lemma JN_e_Fin:
  "JN_e (Fin t) (Fin l) (Fin m) (Fin n)
       [[Fin m00, Fin m01, Fin m02], [Fin m10, Fin m11, Fin m12], [Fin m20, Fin m21, Fin m22]]
   = [Fin (t * (l * m00 + m * m01 + n * m02)),
      Fin (t * (l * m10 + m * m11 + n * m12)),
      Fin (t * (l * m20 + m * m21 + n * m22))]"
  by (simp add: JN_e_def)

lemma k_matrix_rotation:
  "k_matrix [Fin k1, Fin k2, Fin k3]
       [[Fin 0, Fin 1, Fin 0],
        [Fin (cos d), Fin 0, Fin (- sin d)],
        [Fin (- sin d), Fin 0, Fin (- cos d)]] =
     [[Fin k1, Fin 0, Fin 0], [Fin 0, Fin k2, Fin 0], [Fin 0, Fin 0, Fin k3]]"
  by (simp add: k_matrix_unfold sin_cos_sq)

lemma N_desmag_Fin:
  assumes "a + b \<noteq> 0"
  shows "N_desmag [Fin a, Fin b] = (Fin (4 * pi * b / (a + b)), Fin (4 * pi * a / (a + b)))"
  using assms by (simp add: N_desmag_def np_pi_def)

lemma JR_e_diag:
  "JR_e [[Fin k1, Fin 0, Fin 0], [Fin 0, Fin k2, Fin 0], [Fin 0, Fin 0, Fin k3]]
        [Fin n0, Fin n1, Fin n2] [Fin f0, Fin f1, Fin f2]
   = [Fin (k1 * f0 + n0), Fin (k2 * f1 + n1), Fin (k3 * f2 + n2)]"
  by (simp add: JR_e_def dot_def np_sum_def)

lemma JRD_e_diag:
  assumes "1 + k2 * n2 \<noteq> 0" and "1 + k3 * n2 \<noteq> 0"
  shows "JRD_e [[Fin k1, Fin 0, Fin 0], [Fin 0, Fin k2, Fin 0], [Fin 0, Fin 0, Fin k3]]
           (Fin n2) N3 [Fin j0, Fin j1, Fin j2]
         = Inr [Fin j0, Fin (j1 / (1 + k2 * n2)), Fin (j2 / (1 + k3 * n2))]"
  using assms by (simp add: JRD_e_matrix linalg_inv_A dot_def np_sum_def)



lemma f1_e_Fin:
  assumes "0 < (a\<^sup>2 + l) * (b\<^sup>2 + l)"
  shows "f1_e [Fin a, Fin b] (Fin x2) (Fin x3) (Fin l) [Fin j0, Fin j1, Fin j2]
         = Fin (2 * pi * a * b / sqrt ((a\<^sup>2 + l) * (b\<^sup>2 + l))
                * (j1 * x2 / (a\<^sup>2 + l) + j2 * x3 / (b\<^sup>2 + l)))"
proof -
  have a: "a\<^sup>2 + l \<noteq> 0"
  proof
    assume "a\<^sup>2 + l = 0"
    then have "(a\<^sup>2 + l) * (b\<^sup>2 + l) = 0" by (simp only: mult_zero_left)
    with assms show False by (simp only: less_irrefl)
  qed
  have b: "b\<^sup>2 + l \<noteq> 0"
  proof
    assume "b\<^sup>2 + l = 0"
    then have "(a\<^sup>2 + l) * (b\<^sup>2 + l) = 0" by (simp only: mult_zero_right)
    with assms show False by (simp only: less_irrefl)
  qed
  from assms have n: "\<not> (a\<^sup>2 + l) * (b\<^sup>2 + l) < 0"
    by (simp only: not_less less_imp_le)
  show ?thesis
    using a b n by (simp add: f1_e_def np_pi_def)
qed

lemma B2_e_Fin:
  assumes "a\<^sup>2 - b\<^sup>2 \<noteq> 0" and "a\<^sup>2 + l \<noteq> 0" and "0 \<le> (b\<^sup>2 + l) / (a\<^sup>2 + l)"
  shows "B2_e (Fin d2) (Fin l) [Fin j0, Fin j1, Fin j2] (Fin f) [Fin a, Fin b]
         = Fin (d2 * f - 4 * pi * a * b / (a\<^sup>2 - b\<^sup>2) * j1
                         * (1 - sqrt ((b\<^sup>2 + l) / (a\<^sup>2 + l))))"
  using assms by (simp add: B2_e_def np_pi_def not_less)

lemma B3_e_Fin:
  assumes "a\<^sup>2 - b\<^sup>2 \<noteq> 0" and "b\<^sup>2 + l \<noteq> 0" and "0 \<le> (a\<^sup>2 + l) / (b\<^sup>2 + l)"
  shows "B3_e (Fin d3) (Fin l) [Fin j0, Fin j1, Fin j2] (Fin f) [Fin a, Fin b]
         = Fin (d3 * f - 4 * pi * a * b / (a\<^sup>2 - b\<^sup>2) * j2
                         * (sqrt ((a\<^sup>2 + l) / (b\<^sup>2 + l)) - 1))"
  using assms by (simp add: B3_e_def np_pi_def not_less)

lemma pi_combination_nonzero: "0 \<le> c \<Longrightarrow> 1 + c * pi \<noteq> 0"
proof -
  assume "0 \<le> c"
  then have "0 \<le> c * pi" by simp
  then show ?thesis by linarith
qed

section \<open>Equal axis lengths\<close>

text \<open>
  With \<open>axis[0] = axis[1]\<close> the factor \<^verbatim>\<open>4 pi a b / (a**2 - b**2)\<close> of \<open>B2_e\<close> and
  \<open>B3_e\<close> is a division by zero, and its product with the last factor, which is zero
  or NaN, is NaN.
\<close>

lemma equal_axes_factor: "\<not> is_fin (x / (b ^ 2 - b ^ 2))"
  using self_minus [of "b ^ 2"] by (auto simp add: div_zero_not_fin)

lemma B2_e_equal_axes: "B2_e dlambx2 lamb JRD f1 [b, b] = NaN"
proof -
  let ?y = "(Fin 4 * np_pi * b * b) / (b ^ 2 - b ^ 2) * JRD ! 1"
  have y: "\<not> is_fin ?y"
    by (rule not_fin_times) (rule equal_axes_factor)
  have "Fin 1 - pow_half ((b ^ 2 + lamb) / (b ^ 2 + lamb)) = Fin 0
        \<or> Fin 1 - pow_half ((b ^ 2 + lamb) / (b ^ 2 + lamb)) = NaN"
    using self_div [of "b ^ 2 + lamb"] by auto
  then have "?y * (Fin 1 - pow_half ((b ^ 2 + lamb) / (b ^ 2 + lamb))) = NaN"
    using y by (auto simp add: not_fin_times_zero)
  then show ?thesis by (simp add: B2_e_def)
qed

lemma B3_e_equal_axes: "B3_e dlambx3 lamb JRD f1 [b, b] = NaN"
proof -
  let ?y = "(Fin 4 * np_pi * b * b) / (b ^ 2 - b ^ 2) * JRD ! 2"
  have y: "\<not> is_fin ?y"
    by (rule not_fin_times) (rule equal_axes_factor)
  have "pow_half ((b ^ 2 + lamb) / (b ^ 2 + lamb)) - Fin 1 = Fin 0
        \<or> pow_half ((b ^ 2 + lamb) / (b ^ 2 + lamb)) - Fin 1 = NaN"
    using self_div [of "b ^ 2 + lamb"] by auto
  then have "?y * (pow_half ((b ^ 2 + lamb) / (b ^ 2 + lamb)) - Fin 1) = NaN"
    using y by (auto simp add: not_fin_times_zero)
  then show ?thesis by (simp add: B3_e_def)
qed

text \<open>The errors that the steps before the field formulas can raise.\<close>

lemma elliptic_km_errors:
  "elliptic_km k mcon = Inl e \<Longrightarrow> e = IndexError \<or> e = NameError ''k_dec''"
  by (auto simp add: elliptic_km_def k_matrix2_module Let_def split: if_splits)

lemma linalg_inv_errors: "linalg_inv A = Inl e \<Longrightarrow> e = ValueError \<or> e = LinAlgError"
  by (auto simp add: linalg_inv_def Let_def split: if_splits)

lemma JRD_e_errors: "JRD_e km N2 N3 JR = Inl e \<Longrightarrow> e = ValueError \<or> e = LinAlgError"
  by (auto simp add: JRD_e_def Let_def split: sum.splits dest: linalg_inv_errors)

lemma equal_axes_cases:
  "elliptic xp yp zp xc yc zc b b delta declirem inclirem intensity decT incT intT k
     = Inr (NaN, NaN, NaN)
   \<or> elliptic xp yp zp xc yc zc b b delta declirem inclirem intensity decT incT intT k
     \<in> {Inl IndexError, Inl (NameError ''k_dec''), Inl ValueError, Inl LinAlgError}"
  by (auto simp add: elliptic_def Let_def B2_e_equal_axes B3_e_equal_axes Bx_c_def Bz_c_def
      split: sum.splits prod.splits dest: elliptic_km_errors JRD_e_errors)

lemma equal_axes_returns:
  assumes a: "a \<noteq> 0" and k: "1 + 2 * pi * k0 \<noteq> 0"
  shows "elliptic (Fin xp) (Fin yp) (Fin zp) (Fin xc) (Fin yc) (Fin zc) (Fin a) (Fin a)
           (Fin delta) (Fin declirem) (Fin inclirem) (Fin intensity)
           (Fin decT) (Fin incT) (Fin intT)
           [[Fin k0, d0, i0], [Fin k0, d1, i1], [Fin k0, d2, i2]]
         = Inr (NaN, NaN, NaN)"
proof -
  define M where "M = fst (m_conv [np_deg2rad (Fin delta)])"
  define MT where "MT = snd (m_conv [np_deg2rad (Fin delta)])"
  define K where "K = [[Fin k0, Fin 0, Fin 0], [Fin 0, Fin k0, Fin 0], [Fin 0, Fin 0, Fin k0]]"
  have mc: "m_conv [np_deg2rad (Fin delta)] = (M, MT)"
    by (simp add: M_def MT_def)
  have km: "elliptic_km [[Fin k0, d0, i0], [Fin k0, d1, i1], [Fin k0, d2, i2]] M = Inr K"
    unfolding M_def K_def
    by (simp only: elliptic_km_equal [OF refl] np_deg2rad_Fin m_conv_Fin fst_conv k_matrix_rotation)
  obtain f0 f1 f2 where F:
    "F_e (Fin intT) (fst (lmnn_v (np_deg2rad (Fin decT)) (np_deg2rad (Fin incT))))
        (fst (snd (lmnn_v (np_deg2rad (Fin decT)) (np_deg2rad (Fin incT)))))
        (snd (snd (lmnn_v (np_deg2rad (Fin decT)) (np_deg2rad (Fin incT))))) M
      = [Fin f0, Fin f1, Fin f2]"
    unfolding M_def by (simp only: np_deg2rad_Fin m_conv_Fin lmnn_v_Fin fst_conv snd_conv F_e_Fin)
  obtain n0 n1 n2 where JN:
    "JN_e (Fin intensity)
        (fst (lmnn_v (np_deg2rad (Fin declirem)) (np_deg2rad (Fin inclirem))))
        (fst (snd (lmnn_v (np_deg2rad (Fin declirem)) (np_deg2rad (Fin inclirem)))))
        (snd (snd (lmnn_v (np_deg2rad (Fin declirem)) (np_deg2rad (Fin inclirem))))) M
      = [Fin n0, Fin n1, Fin n2]"
    unfolding M_def by (simp only: np_deg2rad_Fin m_conv_Fin lmnn_v_Fin fst_conv snd_conv JN_e_Fin)
  have N: "N_desmag [Fin a, Fin a] = (Fin (2 * pi), Fin (2 * pi))"
    using a by (simp add: N_desmag_def np_pi_def field_simps)
  have JRD: "JRD_e K (Fin (2 * pi)) (Fin (2 * pi))
               (JR_e K [Fin n0, Fin n1, Fin n2] [Fin f0, Fin f1, Fin f2])
             = Inr [Fin (k0 * f0 + n0), Fin ((k0 * f1 + n1) / (1 + k0 * (2 * pi))),
                    Fin ((k0 * f2 + n2) / (1 + k0 * (2 * pi)))]"
    unfolding K_def JR_e_diag using k by (intro JRD_e_diag) (simp_all add: mult.commute mult.left_commute)
  have "\<exists>v. elliptic (Fin xp) (Fin yp) (Fin zp) (Fin xc) (Fin yc) (Fin zc) (Fin a) (Fin a)
           (Fin delta) (Fin declirem) (Fin inclirem) (Fin intensity)
           (Fin decT) (Fin incT) (Fin intT)
           [[Fin k0, d0, i0], [Fin k0, d1, i1], [Fin k0, d2, i2]] = Inr v"
    by (simp add: elliptic_def mc km F JN N JRD Let_def split_beta)
  then show ?thesis
    using equal_axes_cases
      [of "Fin xp" "Fin yp" "Fin zp" "Fin xc" "Fin yc" "Fin zc" "Fin a"
          "Fin delta" "Fin declirem" "Fin inclirem" "Fin intensity"
          "Fin decT" "Fin incT" "Fin intT" "[[Fin k0, d0, i0], [Fin k0, d1, i1], [Fin k0, d2, i2]]"]
    by auto
qed

text \<open>
  Claim C3 says that \<open>elliptic\<close> raises a domain error for equal axis lengths and
  returns no value. The source has no such check. What holds instead: for every
  input with equal axis lengths, \<open>elliptic\<close> either fails in an earlier step
  (IndexError for a table \<open>k\<close> that is too short, NameError from \<open>k_matrix2\<close>,
  ValueError or LinAlgError from the matrix inversion) or returns, and then each of
  the three returned components is NaN; and it does return \<open>(NaN, NaN, NaN)\<close> for
  finite arguments, a nonzero axis length \<open>a\<close> and three equal intensities \<open>k0\<close>
  with \<open>1 + 2 pi k0\<close> not zero.
\<close>

theorem elliptic_equal_axes:
  "(elliptic xp yp zp xc yc zc b b delta declirem inclirem intensity decT incT intT k
      = Inr (NaN, NaN, NaN)
    \<or> elliptic xp yp zp xc yc zc b b delta declirem inclirem intensity decT incT intT k
      = Inl IndexError
    \<or> elliptic xp yp zp xc yc zc b b delta declirem inclirem intensity decT incT intT k
      = Inl (NameError ''k_dec'')
    \<or> elliptic xp yp zp xc yc zc b b delta declirem inclirem intensity decT incT intT k
      = Inl ValueError
    \<or> elliptic xp yp zp xc yc zc b b delta declirem inclirem intensity decT incT intT k
      = Inl LinAlgError)
   \<and> (a \<noteq> 0 \<and> 1 + 2 * pi * k0 \<noteq> 0 \<longrightarrow>
        elliptic (Fin xp') (Fin yp') (Fin zp') (Fin xc') (Fin yc') (Fin zc') (Fin a) (Fin a)
           (Fin delta') (Fin declirem') (Fin inclirem') (Fin intensity')
           (Fin decT') (Fin incT') (Fin intT')
           [[Fin k0, d0, i0], [Fin k0, d1, i1], [Fin k0, d2, i2]]
         = Inr (NaN, NaN, NaN))"
  using equal_axes_cases
    [of xp yp zp xc yc zc b delta declirem inclirem intensity decT incT intT k]
    equal_axes_returns
    [of a k0 xp' yp' zp' xc' yc' zc' delta' declirem' inclirem' intensity' decT' incT' intT'
        d0 i0 d1 i1 d2 i2]
  by auto

theorem elliptic_equal_axes_witness:
  "(3::real) \<noteq> 0 \<and> 1 + 2 * pi * (1 / 100) \<noteq> 0
   \<and> elliptic (Fin 1) (Fin 2) (Fin 0) (Fin 0) (Fin 0) (Fin 5) (Fin 3) (Fin 3)
     (Fin 30) (Fin 10) (Fin 20) (Fin 2) (Fin 5) (Fin 60) (Fin 50000)
     [[Fin (1 / 100), Fin 0, Fin 0], [Fin (1 / 100), Fin 0, Fin 0],
      [Fin (1 / 100), Fin 0, Fin 0]]
   = Inr (NaN, NaN, NaN)"
  using elliptic_equal_axes [where a = 3 and ?k0.0 = "1 / 100"
      and xp' = 1 and yp' = 2 and zp' = 0 and xc' = 0 and yc' = 0 and zc' = 5
      and delta' = 30 and declirem' = 10 and inclirem' = 20 and intensity' = 2
      and decT' = 5 and incT' = 60 and intT' = 50000
      and ?d0.0 = "Fin 0" and ?i0.0 = "Fin 0" and ?d1.0 = "Fin 0" and ?i1.0 = "Fin 0"
      and ?d2.0 = "Fin 0" and ?i2.0 = "Fin 0"]
    pi_combination_nonzero [of "1 / 50"]
  by simp

text \<open>
  The scenario of the specification with \<open>axis = (1, 1)\<close>: \<open>elliptic\<close> returns, and
  what it returns is \<open>(NaN, NaN, NaN)\<close>.
\<close>

theorem elliptic_axis_1_1_returns_nan:
  "elliptic (Fin 0) (Fin 0) (Fin 0) (Fin 0) (Fin 0) (Fin 5) (Fin 1) (Fin 1)
     (Fin 0) (Fin 0) (Fin 0) (Fin 0) (Fin 0) (Fin 90) (Fin 50000)
     [[Fin (1 / 100), Fin 0, Fin 0], [Fin (1 / 100), Fin 0, Fin 0],
      [Fin (1 / 100), Fin 0, Fin 0]]
   = Inr (NaN, NaN, NaN)"
proof -
  have "1 + 2 * pi * (1 / 100) \<noteq> (0::real)"
    using pi_combination_nonzero [of "1 / 50"] by simp
  then show ?thesis
    by (intro equal_axes_returns) simp_all
qed

section \<open>A vertical field and a point above the centre\<close>

text \<open>
  Zero tilt, zero remanent intensity, three equal intensities \<open>k0\<close>, an ambient
  inclination of 90 degrees, and an observation point with \<open>xp = xc\<close> and
  \<open>yp = yc\<close>: the body coordinates of the point are \<open>x2 = 0\<close> and \<open>x3 = zp + zc\<close>.
\<close>

lemma m_conv_zero:
  "m_conv [np_deg2rad (Fin 0)] =
     ([[Fin 0, Fin 1, Fin 0], [Fin 1, Fin 0, Fin 0], [Fin 0, Fin 0, Fin (- 1)]],
      [[Fin 0, Fin 1, Fin 0], [Fin 1, Fin 0, Fin 0], [Fin 0, Fin 0, Fin (- 1)]])"
  by (simp add: np_deg2rad_Fin m_conv_Fin)

lemma lmnn_v_vertical:
  "lmnn_v (np_deg2rad (Fin decT)) (np_deg2rad (Fin 90)) = (Fin 0, Fin 0, Fin 1)"
  by (simp add: np_deg2rad_Fin lmnn_v_Fin)

lemma x_e_above:
  "x_e (Fin xc) (Fin yc) (Fin zp) [Fin xc, Fin yc, Fin zc]
       [[Fin 0, Fin 1, Fin 0], [Fin 1, Fin 0, Fin 0], [Fin 0, Fin 0, Fin (- 1)]]
   = (Fin 0, Fin (zp + zc))"
  by (simp add: x_e_def)

lemma r_e_axis: "r_e (Fin 0) (Fin h) = Fin \<bar>h\<bar>"
  by (simp add: r_e_def)

lemma delta_e_axis_abs:
  "delta_e [Fin a, Fin b] (Fin \<bar>h\<bar>) (Fin 0) (Fin h) = Fin \<bar>h\<^sup>2 + (a\<^sup>2 - b\<^sup>2)\<bar>"
proof -
  have "\<bar>h\<bar> ^ 4 + (a\<^sup>2 - b\<^sup>2)\<^sup>2 - 2 * (a\<^sup>2 - b\<^sup>2) * (0\<^sup>2 - h\<^sup>2) = (h\<^sup>2 + (a\<^sup>2 - b\<^sup>2))\<^sup>2"
    by (simp add: power2_eq_square power4_eq_xxxx algebra_simps)
  then show ?thesis
    by (simp add: delta_e_def)
qed

lemma lamb_e_axis_abs:
  "lamb_e [Fin a, Fin b] (Fin \<bar>h\<bar>) (Fin dl) = Fin ((h\<^sup>2 - a\<^sup>2 - b\<^sup>2 + dl) / 2)"
  by (simp add: lamb_e_def)

lemma dlambx_e_axis:
  assumes "0 < h\<^sup>2 + (a\<^sup>2 - b\<^sup>2)"
  shows "dlambx_e [Fin a, Fin b] (Fin \<bar>h\<bar>) (Fin 0) (Fin h) (Fin (h\<^sup>2 - b\<^sup>2))
           (Fin (h\<^sup>2 + (a\<^sup>2 - b\<^sup>2))) = (Fin 0, Fin (2 * h))"
  using assms by (simp add: dlambx_e_def add_diff_eq)

text \<open>
  The pipeline up to the matrix inversion, with the field formulas left as they are.
\<close>

lemma vertical_prefix:
  fixes a b zp zc k0 intT :: real
  defines "h \<equiv> zp + zc"
  defines "lamb \<equiv> Fin ((h\<^sup>2 - a\<^sup>2 - b\<^sup>2 + \<bar>h\<^sup>2 + (a\<^sup>2 - b\<^sup>2)\<bar>) / 2)"
  defines "dl \<equiv> dlambx_e [Fin a, Fin b] (Fin \<bar>h\<bar>) (Fin 0) (Fin h) lamb
                  (Fin \<bar>h\<^sup>2 + (a\<^sup>2 - b\<^sup>2)\<bar>)"
  defines "B2 \<equiv> \<lambda>JRD. B2_e (fst dl) lamb JRD
                          (f1_e [Fin a, Fin b] (Fin 0) (Fin h) lamb JRD) [Fin a, Fin b]"
  defines "B3 \<equiv> \<lambda>JRD. B3_e (snd dl) lamb JRD
                          (f1_e [Fin a, Fin b] (Fin 0) (Fin h) lamb JRD) [Fin a, Fin b]"
  shows "elliptic (Fin xc) (Fin yc) (Fin zp) (Fin xc) (Fin yc) (Fin zc) (Fin a) (Fin b)
           (Fin 0) (Fin declirem) (Fin inclirem) (Fin 0) (Fin decT) (Fin 90) (Fin intT)
           [[Fin k0, d0, i0], [Fin k0, d1, i1], [Fin k0, d2, i2]]
         = (case JRD_e [[Fin k0, Fin 0, Fin 0], [Fin 0, Fin k0, Fin 0], [Fin 0, Fin 0, Fin k0]]
                   (fst (N_desmag [Fin a, Fin b])) (snd (N_desmag [Fin a, Fin b]))
                   [Fin 0, Fin 0, Fin (- (k0 * intT))] of
              Inl e \<Rightarrow> Inl e
            | Inr JRD \<Rightarrow>
                Inr (Bx_c (B2 JRD) (B3 JRD) (Fin 1) (Fin 0),
                     Bz_c (B2 JRD) (B3 JRD) (Fin 0) (Fin (- 1)),
                     Bx_c (B2 JRD) (B3 JRD) (Fin 1) (Fin 0) * Fin 0
                       * np_cos (np_deg2rad (Fin decT))
                     + Bz_c (B2 JRD) (B3 JRD) (Fin 0) (Fin (- 1)) * Fin 1))"
proof -
  define M where "M = [[Fin 0, Fin 1, Fin 0], [Fin 1, Fin 0, Fin 0], [Fin 0, Fin 0, Fin (- 1)]]"
  define K where "K = [[Fin k0, Fin 0, Fin 0], [Fin 0, Fin k0, Fin 0], [Fin 0, Fin 0, Fin k0]]"
  have mc: "m_conv [np_deg2rad (Fin 0)] = (M, M)"
    unfolding M_def by (rule m_conv_zero)
  have amb: "lmnn_v (np_deg2rad (Fin decT)) (np_deg2rad (Fin 90)) = (Fin 0, Fin 0, Fin 1)"
    by (rule lmnn_v_vertical)
  have rem: "lmnn_v (np_deg2rad (Fin declirem)) (np_deg2rad (Fin inclirem))
      = (Fin (cos (declirem * (pi / 180)) * cos (inclirem * (pi / 180))),
         Fin (sin (declirem * (pi / 180)) * cos (inclirem * (pi / 180))),
         Fin (sin (inclirem * (pi / 180))))"
    by (simp only: np_deg2rad_Fin lmnn_v_Fin)
  have km: "elliptic_km [[Fin k0, d0, i0], [Fin k0, d1, i1], [Fin k0, d2, i2]] M = Inr K"
    unfolding M_def K_def
    using k_matrix_rotation [of k0 k0 k0 0] by (simp add: elliptic_km_equal [OF refl])
  have F: "F_e (Fin intT) (Fin 0) (Fin 0) (Fin 1) M = [Fin 0, Fin 0, Fin (- intT)]"
    unfolding M_def by (simp add: F_e_Fin)
  have JN: "JN_e (Fin 0) (Fin lr) (Fin mr) (Fin nr) M = [Fin 0, Fin 0, Fin 0]" for lr mr nr
    unfolding M_def by (simp add: JN_e_Fin)
  have JR: "JR_e K [Fin 0, Fin 0, Fin 0] [Fin 0, Fin 0, Fin (- intT)]
            = [Fin 0, Fin 0, Fin (- (k0 * intT))]"
    unfolding K_def by (simp add: JR_e_diag)
  have x: "x_e (Fin xc) (Fin yc) (Fin zp) [Fin xc, Fin yc, Fin zc] M = (Fin 0, Fin h)"
    unfolding M_def h_def by (rule x_e_above)
  have r: "r_e (Fin 0) (Fin h) = Fin \<bar>h\<bar>"
    by (rule r_e_axis)
  have d: "delta_e [Fin a, Fin b] (Fin \<bar>h\<bar>) (Fin 0) (Fin h) = Fin \<bar>h\<^sup>2 + (a\<^sup>2 - b\<^sup>2)\<bar>"
    by (rule delta_e_axis_abs)
  have lam: "lamb_e [Fin a, Fin b] (Fin \<bar>h\<bar>) (Fin \<bar>h\<^sup>2 + (a\<^sup>2 - b\<^sup>2)\<bar>) = lamb"
    unfolding lamb_def by (rule lamb_e_axis_abs)
  have ang: "np_cos (np_deg2rad (Fin 90)) = Fin 0" "np_sin (np_deg2rad (Fin 90)) = Fin 1"
    by (simp_all add: np_deg2rad_Fin)
  show ?thesis
    unfolding B2_def B3_def dl_def K_def [symmetric]
    by (simp add: elliptic_def mc amb rem km F JN JR x r d lam ang Let_def split_beta
          split: sum.splits)
      (simp add: M_def)
qed

text \<open>
  Away from the zeros of the divisors every step is finite, and \<open>B2\<close> is zero.
\<close>

lemma vertical_regular:
  fixes a b zp zc k0 intT :: real
  defines "h \<equiv> zp + zc"
  defines "l \<equiv> h\<^sup>2 - b\<^sup>2"
  defines "J \<equiv> - (k0 * intT) / (1 + k0 * (4 * pi * b / (a + b)))"
  defines "f \<equiv> 2 * pi * a * b / sqrt ((a\<^sup>2 + l) * (b\<^sup>2 + l)) * (J * h / (b\<^sup>2 + l))"
  assumes ab: "a\<^sup>2 - b\<^sup>2 \<noteq> 0" and h0: "h \<noteq> 0" and pos: "0 < h\<^sup>2 + (a\<^sup>2 - b\<^sup>2)"
    and k: "1 + k0 * (4 * pi * b / (a + b)) \<noteq> 0"
  shows "elliptic (Fin xc) (Fin yc) (Fin zp) (Fin xc) (Fin yc) (Fin zc) (Fin a) (Fin b)
           (Fin 0) (Fin declirem) (Fin inclirem) (Fin 0) (Fin decT) (Fin 90) (Fin intT)
           [[Fin k0, d0, i0], [Fin k0, d1, i1], [Fin k0, d2, i2]]
         = Inr (Fin 0,
                Fin (- (2 * h * f - 4 * pi * a * b / (a\<^sup>2 - b\<^sup>2) * J
                                   * (sqrt ((a\<^sup>2 + l) / (b\<^sup>2 + l)) - 1))),
                Fin (- (2 * h * f - 4 * pi * a * b / (a\<^sup>2 - b\<^sup>2) * J
                                   * (sqrt ((a\<^sup>2 + l) / (b\<^sup>2 + l)) - 1))))"
proof -
  have sum_ab: "a + b \<noteq> 0"
  proof
    assume "a + b = 0"
    then have "a = - b" by simp
    with ab show False by simp
  qed
  have al: "a\<^sup>2 + l = h\<^sup>2 + (a\<^sup>2 - b\<^sup>2)" and bl: "b\<^sup>2 + l = h\<^sup>2"
    by (simp_all add: l_def)
  have h2: "0 < h\<^sup>2"
    using h0 by simp
  have prod: "0 < (a\<^sup>2 + l) * (b\<^sup>2 + l)"
    unfolding al bl using pos h2 by (rule mult_pos_pos)
  have al0: "a\<^sup>2 + l \<noteq> 0" and bl0: "b\<^sup>2 + l \<noteq> 0"
    unfolding al bl using pos h2 by simp_all
  have r1: "0 \<le> (b\<^sup>2 + l) / (a\<^sup>2 + l)" and r2: "0 \<le> (a\<^sup>2 + l) / (b\<^sup>2 + l)"
    unfolding al bl using pos h2 by simp_all
  have abs: "\<bar>h\<^sup>2 + (a\<^sup>2 - b\<^sup>2)\<bar> = h\<^sup>2 + (a\<^sup>2 - b\<^sup>2)"
    using pos by simp
  have lam: "(h\<^sup>2 - a\<^sup>2 - b\<^sup>2 + (h\<^sup>2 + (a\<^sup>2 - b\<^sup>2))) / 2 = l"
    by (simp add: l_def)
  have JRD: "JRD_e [[Fin k0, Fin 0, Fin 0], [Fin 0, Fin k0, Fin 0], [Fin 0, Fin 0, Fin k0]]
               (Fin (4 * pi * b / (a + b))) N3 [Fin 0, Fin 0, Fin (- (k0 * intT))]
             = Inr [Fin 0, Fin 0, Fin J]" for N3
    unfolding J_def using k by (simp add: JRD_e_diag)
  have dl: "dlambx_e [Fin a, Fin b] (Fin \<bar>h\<bar>) (Fin 0) (Fin h) (Fin l)
           (Fin (h\<^sup>2 + (a\<^sup>2 - b\<^sup>2))) = (Fin 0, Fin (2 * h))"
    unfolding l_def using pos by (rule dlambx_e_axis)
  have f1: "f1_e [Fin a, Fin b] (Fin 0) (Fin h) (Fin l) [Fin 0, Fin 0, Fin J] = Fin f"
    unfolding f_def using f1_e_Fin [OF prod, of 0 h 0 0 J] by simp
  have B2: "B2_e (Fin 0) (Fin l) [Fin 0, Fin 0, Fin J] (Fin f) [Fin a, Fin b] = Fin 0"
    using B2_e_Fin [OF ab al0 r1, of 0 0 0 J f] by simp
  have B3: "B3_e (Fin (2 * h)) (Fin l) [Fin 0, Fin 0, Fin J] (Fin f) [Fin a, Fin b]
            = Fin (2 * h * f - 4 * pi * a * b / (a\<^sup>2 - b\<^sup>2) * J
                               * (sqrt ((a\<^sup>2 + l) / (b\<^sup>2 + l)) - 1))"
    by (rule B3_e_Fin [OF ab bl0 r2])
  show ?thesis
    unfolding vertical_prefix N_desmag_Fin [OF sum_ab] fst_conv snd_conv JRD sum.case
      h_def [symmetric] abs lam dl f1 B2 B3
    by (simp add: Bx_c_def Bz_c_def np_deg2rad_Fin)
qed











section \<open>The total-field anomaly\<close>

lemma sqrt_1024: "sqrt 1024 = 32"
  by (rule real_sqrt_unique) simp_all

lemma sqrt_4: "sqrt 4 = 2"
  by (rule real_sqrt_unique) simp_all

lemma elliptic_at_axis_7_1:
  "elliptic (Fin 0) (Fin 0) (Fin 0) (Fin 0) (Fin 0) (Fin 4) (Fin 7) (Fin 1)
        (Fin 0) (Fin 0) (Fin 0) (Fin 0) (Fin 0) (Fin 90) (Fin 24)
        [[Fin 1, Fin 0, Fin 0], [Fin 1, Fin 0, Fin 0], [Fin 1, Fin 0, Fin 0]]
   = Inr (Fin 0, Fin (14 * pi / (2 + pi)), Fin (14 * pi / (2 + pi)))"
proof -
  define J :: real where "J = - (1 * 24) / (1 + 1 * (4 * pi * 1 / (7 + 1)))"
  have k: "1 + 1 * (4 * pi * 1 / (7 + 1)) \<noteq> (0::real)"
    using pi_combination_nonzero [of "1 / 2"] by simp
  have p: "2 + pi \<noteq> 0"
    using pi_gt_zero by linarith
  have J: "J = - 48 / (2 + pi)"
    using p by (simp add: J_def field_simps)
  have s1: "sqrt ((7\<^sup>2 + ((0 + 4)\<^sup>2 - 1\<^sup>2)) * (1\<^sup>2 + ((0 + 4)\<^sup>2 - 1\<^sup>2))) = 32"
    by (simp add: sqrt_1024)
  have s2: "sqrt ((7\<^sup>2 + ((0 + 4)\<^sup>2 - 1\<^sup>2)) / (1\<^sup>2 + ((0 + 4)\<^sup>2 - 1\<^sup>2))) = 2"
    by (simp add: sqrt_4)
  have "- (2 * (0 + 4) *
            (2 * pi * 7 * 1 / sqrt ((7\<^sup>2 + ((0 + 4)\<^sup>2 - 1\<^sup>2)) * (1\<^sup>2 + ((0 + 4)\<^sup>2 - 1\<^sup>2)))
             * (J * (0 + 4) / (1\<^sup>2 + ((0 + 4)\<^sup>2 - 1\<^sup>2))))
          - 4 * pi * 7 * 1 / (7\<^sup>2 - 1\<^sup>2) * J
            * (sqrt ((7\<^sup>2 + ((0 + 4)\<^sup>2 - 1\<^sup>2)) / (1\<^sup>2 + ((0 + 4)\<^sup>2 - 1\<^sup>2))) - 1))
        = - (7 * pi / 24) * J"
    unfolding s1 s2 by simp
  also have "\<dots> = 14 * pi / (2 + pi)"
    using p by (simp add: J field_simps)
  finally have v: "- (2 * (0 + 4) *
            (2 * pi * 7 * 1 / sqrt ((7\<^sup>2 + ((0 + 4)\<^sup>2 - 1\<^sup>2)) * (1\<^sup>2 + ((0 + 4)\<^sup>2 - 1\<^sup>2)))
             * (J * (0 + 4) / (1\<^sup>2 + ((0 + 4)\<^sup>2 - 1\<^sup>2))))
          - 4 * pi * 7 * 1 / (7\<^sup>2 - 1\<^sup>2) * J
            * (sqrt ((7\<^sup>2 + ((0 + 4)\<^sup>2 - 1\<^sup>2)) / (1\<^sup>2 + ((0 + 4)\<^sup>2 - 1\<^sup>2))) - 1))
        = 14 * pi / (2 + pi)" .
  have "elliptic (Fin 0) (Fin 0) (Fin 0) (Fin 0) (Fin 0) (Fin 4) (Fin 7) (Fin 1)
        (Fin 0) (Fin 0) (Fin 0) (Fin 0) (Fin 0) (Fin 90) (Fin 24)
        [[Fin 1, Fin 0, Fin 0], [Fin 1, Fin 0, Fin 0], [Fin 1, Fin 0, Fin 0]]
   = Inr (Fin 0,
          Fin (- (2 * (0 + 4) *
            (2 * pi * 7 * 1 / sqrt ((7\<^sup>2 + ((0 + 4)\<^sup>2 - 1\<^sup>2)) * (1\<^sup>2 + ((0 + 4)\<^sup>2 - 1\<^sup>2)))
             * (J * (0 + 4) / (1\<^sup>2 + ((0 + 4)\<^sup>2 - 1\<^sup>2))))
          - 4 * pi * 7 * 1 / (7\<^sup>2 - 1\<^sup>2) * J
            * (sqrt ((7\<^sup>2 + ((0 + 4)\<^sup>2 - 1\<^sup>2)) / (1\<^sup>2 + ((0 + 4)\<^sup>2 - 1\<^sup>2))) - 1))),
          Fin (- (2 * (0 + 4) *
            (2 * pi * 7 * 1 / sqrt ((7\<^sup>2 + ((0 + 4)\<^sup>2 - 1\<^sup>2)) * (1\<^sup>2 + ((0 + 4)\<^sup>2 - 1\<^sup>2)))
             * (J * (0 + 4) / (1\<^sup>2 + ((0 + 4)\<^sup>2 - 1\<^sup>2))))
          - 4 * pi * 7 * 1 / (7\<^sup>2 - 1\<^sup>2) * J
            * (sqrt ((7\<^sup>2 + ((0 + 4)\<^sup>2 - 1\<^sup>2)) / (1\<^sup>2 + ((0 + 4)\<^sup>2 - 1\<^sup>2))) - 1))))"
    unfolding J_def
    by (rule vertical_regular [where a = 7 and b = 1 and zp = 0 and zc = 4 and ?k0.0 = 1
          and intT = 24 and xc = 0 and yc = 0 and declirem = 0 and inclirem = 0 and decT = 0])
      (use k in simp_all)
  then show ?thesis
    unfolding v .
qed

text \<open>
  Claim C9. Whenever \<open>elliptic\<close> returns \<open>(Bx, Bz, Tf)\<close>, the total-field anomaly
  \<open>Tf\<close> is \<open>Bx cos(incT) cos(decT) + Bz sin(incT)\<close>, with the ambient inclination
  and declination converted to radians; no other component contributes.
\<close>

theorem elliptic_total_field:
  assumes "elliptic xp yp zp xc yc zc b c delta declirem inclirem intensity decT incT intT k
             = Inr (Bx, Bz, Tf)"
  shows "Tf = Bx * np_cos (np_deg2rad incT) * np_cos (np_deg2rad decT)
              + Bz * np_sin (np_deg2rad incT)"
  using assms
  by (auto simp add: elliptic_def Let_def split: sum.splits prod.splits)

theorem elliptic_total_field_witness:
  "elliptic (Fin 0) (Fin 0) (Fin 0) (Fin 0) (Fin 0) (Fin 4) (Fin 7) (Fin 1)
        (Fin 0) (Fin 0) (Fin 0) (Fin 0) (Fin 0) (Fin 90) (Fin 24)
        [[Fin 1, Fin 0, Fin 0], [Fin 1, Fin 0, Fin 0], [Fin 1, Fin 0, Fin 0]]
     = Inr (Fin 0, Fin (14 * pi / (2 + pi)), Fin (14 * pi / (2 + pi)))
   \<and> Fin (14 * pi / (2 + pi))
     = Fin 0 * np_cos (np_deg2rad (Fin 90)) * np_cos (np_deg2rad (Fin 0))
       + Fin (14 * pi / (2 + pi)) * np_sin (np_deg2rad (Fin 90))"
  using elliptic_total_field [OF elliptic_at_axis_7_1] elliptic_at_axis_7_1
  by simp

end
